theory Spec2Isabelle
  imports Main
begin

section \<open>The fragment of JavaScript values that filters and data range over\<close>

text \<open>
  \<^verbatim>\<open>src/base/base-mixin.js\<close> compares filter values and data with the JavaScript operators
  \<^verbatim>\<open><=\<close> and \<^verbatim>\<open>>=\<close>, tests them for truthiness and reads the properties
  \<^verbatim>\<open>isFiltered\<close> and \<^verbatim>\<open>filterType\<close> from them.  The values modelled here are
  \<^verbatim>\<open>undefined\<close>, \<^verbatim>\<open>null\<close>, the integral numbers, \<^verbatim>\<open>NaN\<close>, strings
  of ASCII characters and arrays of these.  Booleans, fractional and infinite numbers, dates and
  plain objects are outside the fragment.
\<close>

datatype datum =
    DUndefined
  | DNull
  | DNum int
  | DNaN
  | DStr string
  | DArr "datum list"

text \<open>
  A filter is either plain data or a filter object of \<^verbatim>\<open>dc.filters\<close>: an array that
  carries a \<^verbatim>\<open>filterType\<close> string and an \<^verbatim>\<open>isFiltered\<close> predicate.  The
  module \<^verbatim>\<open>dc.filters\<close> is not part of this source file, so the predicate of a filter
  object is whatever function the object carries.
\<close>

datatype jsval =
    Plain datum
  | FilterObj string "datum list" "datum \<Rightarrow> bool"

datatype error =
    InvalidStateException string
  | BadArgumentException string
  | TypeError string

subsection \<open>Truthiness and property access\<close>

fun truthy :: "datum \<Rightarrow> bool" where
  "truthy DUndefined = False"
| "truthy DNull = False"
| "truthy (DNum n) = (n \<noteq> 0)"
| "truthy DNaN = False"
| "truthy (DStr s) = (s \<noteq> [])"
| "truthy (DArr xs) = True"

text \<open>Reading a property of \<^verbatim>\<open>undefined\<close> or \<^verbatim>\<open>null\<close> throws a TypeError.\<close>

fun prop_isFiltered :: "jsval \<Rightarrow> error + (datum \<Rightarrow> bool) option" where
  "prop_isFiltered (Plain DUndefined) = Inl (TypeError ''Cannot read properties of undefined'')"
| "prop_isFiltered (Plain DNull) = Inl (TypeError ''Cannot read properties of null'')"
| "prop_isFiltered (Plain d) = Inr None"
| "prop_isFiltered (FilterObj k es p) = Inr (Some p)"

fun prop_filterType :: "jsval \<Rightarrow> error + string option" where
  "prop_filterType (Plain DUndefined) = Inl (TypeError ''Cannot read properties of undefined'')"
| "prop_filterType (Plain DNull) = Inl (TypeError ''Cannot read properties of null'')"
| "prop_filterType (Plain d) = Inr None"
| "prop_filterType (FilterObj k es p) = Inr (Some k)"

subsection \<open>Conversion to string and to number\<close>

definition digit_char :: "nat \<Rightarrow> char" where
  "digit_char n = char_of (48 + n)"

fun show_nat :: "nat \<Rightarrow> string" where
  "show_nat n = (if n < 10 then [digit_char n] else show_nat (n div 10) @ [digit_char (n mod 10)])"

declare show_nat.simps [simp del]

definition show_int :: "int \<Rightarrow> string" where
  "show_int i = (if i < 0 then CHR ''-'' # show_nat (nat (- i)) else show_nat (nat i))"

fun join_comma :: "string list \<Rightarrow> string" where
  "join_comma [] = []"
| "join_comma [s] = s"
| "join_comma (s # t # ss) = s @ CHR '','' # join_comma (t # ss)"

text \<open>
  \<^verbatim>\<open>ToString\<close>; an array is joined with commas, \<^verbatim>\<open>undefined\<close> and
  \<^verbatim>\<open>null\<close> elements giving the empty string (\<^verbatim>\<open>Array.prototype.join\<close>).
  The decimal form of a number is the one JavaScript prints below \<open>10\<^sup>2\<^sup>1\<close>.
\<close>

fun to_string :: "datum \<Rightarrow> string" where
  "to_string DUndefined = ''undefined''"
| "to_string DNull = ''null''"
| "to_string (DNum n) = show_int n"
| "to_string DNaN = ''NaN''"
| "to_string (DStr s) = s"
| "to_string (DArr xs) =
     join_comma (map (\<lambda>x. if x = DUndefined \<or> x = DNull then [] else to_string x) xs)"

fun to_primitive :: "datum \<Rightarrow> datum" where
  "to_primitive (DArr xs) = DStr (to_string (DArr xs))"
| "to_primitive d = d"

definition is_ws :: "char \<Rightarrow> bool" where
  "is_ws c = (c \<in> set [char_of (9::nat), char_of (10::nat), char_of (11::nat),
                        char_of (12::nat), char_of (13::nat), char_of (32::nat)])"

definition trim :: "string \<Rightarrow> string" where
  "trim s = rev (dropWhile is_ws (rev (dropWhile is_ws s)))"

definition is_digit :: "char \<Rightarrow> bool" where
  "is_digit c = (48 \<le> (of_char c :: nat) \<and> (of_char c :: nat) \<le> 57)"

definition digits_value :: "string \<Rightarrow> nat" where
  "digits_value s = foldl (\<lambda>a c. 10 * a + (of_char c - 48)) 0 s"

definition unsigned_literal :: "string \<Rightarrow> int option" where
  "unsigned_literal s = (if s \<noteq> [] \<and> list_all is_digit s then Some (int (digits_value s)) else None)"

text \<open>
  \<^verbatim>\<open>StringToNumber\<close>, with \<open>None\<close> for \<^verbatim>\<open>NaN\<close>: blank strings are \<open>0\<close>, signed
  decimal integer literals are their value.  Literals with a fraction, an exponent or a radix
  prefix, and \<^verbatim>\<open>Infinity\<close>, are outside the fragment and read as \<^verbatim>\<open>NaN\<close>.
\<close>

definition string_to_number :: "string \<Rightarrow> int option" where
  "string_to_number s =
     (case trim s of
        [] \<Rightarrow> Some 0
      | c # r \<Rightarrow>
          if c = CHR ''+'' then unsigned_literal r
          else if c = CHR ''-'' then map_option uminus (unsigned_literal r)
          else unsigned_literal (c # r))"

text \<open>\<^verbatim>\<open>ToNumber\<close> of a primitive, \<open>None\<close> for \<^verbatim>\<open>NaN\<close>.\<close>

fun to_number :: "datum \<Rightarrow> int option" where
  "to_number DUndefined = None"
| "to_number DNull = Some 0"
| "to_number (DNum n) = Some n"
| "to_number DNaN = None"
| "to_number (DStr s) = string_to_number s"
| "to_number (DArr xs) = string_to_number (to_string (DArr xs))"

subsection \<open>The relational operators\<close>

text \<open>Strings compare by code units, lexicographically.\<close>

fun str_lt :: "string \<Rightarrow> string \<Rightarrow> bool" where
  "str_lt [] [] = False"
| "str_lt [] (y # ys) = True"
| "str_lt (x # xs) [] = False"
| "str_lt (x # xs) (y # ys) =
     (if (of_char x :: nat) < of_char y then True
      else if (of_char y :: nat) < of_char x then False
      else str_lt xs ys)"

text \<open>
  The abstract relational comparison \<^verbatim>\<open>x < y\<close> of ECMAScript: both operands are made
  primitive; two strings compare as strings; otherwise both become numbers and the result is
  undefined (\<open>None\<close>) when either is \<^verbatim>\<open>NaN\<close>.
\<close>

definition js_lt :: "datum \<Rightarrow> datum \<Rightarrow> bool option" where
  "js_lt x y =
     (case (to_primitive x, to_primitive y) of
        (DStr a, DStr b) \<Rightarrow> Some (str_lt a b)
      | (px, py) \<Rightarrow>
          (case (to_number px, to_number py) of
             (Some m, Some n) \<Rightarrow> Some (m < n)
           | _ \<Rightarrow> None))"

text \<open>
  \<^verbatim>\<open>a <= b\<close> is \<^verbatim>\<open>b < a\<close> being false, \<^verbatim>\<open>a >= b\<close> is \<^verbatim>\<open>a < b\<close> being false;
  an undefined comparison makes all four operators false.
\<close>

definition js_le :: "datum \<Rightarrow> datum \<Rightarrow> bool" where
  "js_le a b = (js_lt b a = Some False)"

definition js_ge :: "datum \<Rightarrow> datum \<Rightarrow> bool" where
  "js_ge a b = (js_lt a b = Some False)"

definition js_less :: "datum \<Rightarrow> datum \<Rightarrow> bool" where
  "js_less a b = (js_lt a b = Some True)"

definition js_gt :: "datum \<Rightarrow> datum \<Rightarrow> bool" where
  "js_gt a b = (js_lt b a = Some True)"

text \<open>A filter object is an array: as an operand it is its list of elements.\<close>

fun operand :: "jsval \<Rightarrow> datum" where
  "operand (Plain d) = d"
| "operand (FilterObj k es p) = DArr es"

fun is_null :: "jsval \<Rightarrow> bool" where
  "is_null (Plain DNull) = True"
| "is_null v = False"

fun is_undefined :: "jsval \<Rightarrow> bool" where
  "is_undefined (Plain DUndefined) = True"
| "is_undefined v = False"

section \<open>The data source\<close>

text \<open>
  The crossfilter dimension is an external collaborator.  It is modelled as a recording double:
  the list of filtering operations it has received, oldest first.  \<open>has_filter_method\<close> is the
  truthiness of its \<^verbatim>\<open>filter\<close> property, which \<^verbatim>\<open>applyFilters\<close> tests.
\<close>

datatype dim_call =
    CallFilter jsval
  | CallFilterExact jsval
  | CallFilterRange jsval
  | CallFilterFunction "datum \<Rightarrow> error + bool"

record dimension =
  has_filter_method :: bool
  calls :: "dim_call list"

definition dim_call :: "dimension \<Rightarrow> dim_call \<Rightarrow> dimension" where
  "dim_call dim op = dim\<lparr>calls := calls dim @ [op]\<rparr>"

section \<open>The default filter handlers\<close>

text \<open>
  The closure that \<^verbatim>\<open>_defaultFilterHandler\<close> passes to \<^verbatim>\<open>filterFunction\<close>: the loop
  over the filters, returning at the first one that accepts the datum.
\<close>

fun filterPredicate :: "jsval list \<Rightarrow> datum \<Rightarrow> error + bool" where
  "filterPredicate [] d = Inr False"
| "filterPredicate (flt # rest) d =
     (case prop_isFiltered flt of
        Inl e \<Rightarrow> Inl e
      | Inr isFiltered \<Rightarrow>
          if (case isFiltered of Some p \<Rightarrow> p d | None \<Rightarrow> False) then Inr True
          else if js_le (operand flt) d \<and> js_ge (operand flt) d then Inr True
          else filterPredicate rest d)"

text \<open>
  \<^verbatim>\<open>_defaultFilterHandler(dimension, filters)\<close>.  The result is the dimension after the
  call and the value returned, \<open>Some filters\<close> (an array is truthy).
\<close>

fun defaultFilterHandler ::
  "dimension \<Rightarrow> jsval list \<Rightarrow> error + dimension \<times> jsval list option" where
  "defaultFilterHandler dim [] = Inr (dim_call dim (CallFilter (Plain DNull)), Some [])"
| "defaultFilterHandler dim [f] =
     (case prop_isFiltered f of
        Inl e \<Rightarrow> Inl e
      | Inr None \<Rightarrow> Inr (dim_call dim (CallFilterExact f), Some [f])
      | Inr (Some p) \<Rightarrow>
          (case prop_filterType f of
             Inl e \<Rightarrow> Inl e
           | Inr t \<Rightarrow>
               if t = Some ''RangedFilter''
               then Inr (dim_call dim (CallFilterRange f), Some [f])
               else Inr (dim_call dim (CallFilterFunction (filterPredicate [f])), Some [f])))"
| "defaultFilterHandler dim filters =
     Inr (dim_call dim (CallFilterFunction (filterPredicate filters)), Some filters)"

definition defaultHasFilterHandler :: "jsval list \<Rightarrow> jsval \<Rightarrow> bool" where
  "defaultHasFilterHandler filters flt =
     (if is_null flt \<or> is_undefined flt then length filters > 0
      else list_ex (\<lambda>f. js_le (operand flt) (operand f) \<and> js_ge (operand flt) (operand f))
             filters)"

fun defaultRemoveFilterHandler :: "jsval list \<Rightarrow> jsval \<Rightarrow> jsval list" where
  "defaultRemoveFilterHandler [] flt = []"
| "defaultRemoveFilterHandler (x # xs) flt =
     (if js_le (operand x) (operand flt) \<and> js_ge (operand x) (operand flt) then xs
      else x # defaultRemoveFilterHandler xs flt)"

definition defaultAddFilterHandler :: "jsval list \<Rightarrow> jsval \<Rightarrow> jsval list" where
  "defaultAddFilterHandler filters flt = filters @ [flt]"

definition defaultResetFilterHandler :: "jsval list \<Rightarrow> jsval list" where
  "defaultResetFilterHandler filters = []"

section \<open>The chart\<close>

text \<open>
  What the chart does to its collaborators (listeners, the draw hooks of the concrete chart type,
  the DOM, the chart registry, the console) is recorded in a trace, oldest event first.
\<close>

datatype event =
    ListenersCall string "jsval option"
  | DoRender
  | LegendRender
  | Transition int int "string list"
  | CommitHandlerCall bool
  | ConsoleLog datum
  | RedrawAll datum
  | RenderAll datum
  | Style string string "string option"
  | TextFilters string "jsval list"
  | TextValue string jsval
  | WidthCalcCall
  | HeightCalcCall
  | GetBoundingClientRect

text \<open>
  A DOM element: its \<^verbatim>\<open>id\<close> and, when it supports \<^verbatim>\<open>getBoundingClientRect\<close>, the
  width and height of its box.  A d3 selection holds a node or is empty.
\<close>

record element =
  elem_id :: string
  rect :: "(datum \<times> datum) option"

record selection =
  node :: "element option"

datatype root_ref = RootUndefined | RootNull | Root selection

datatype anchor_ref = AnchorSelector string | AnchorNode element

text \<open>
  The calculator of a dimension of the chart: the default one, \<^verbatim>\<open>utils.constant(v)\<close>, or
  a function of the caller.
\<close>

datatype calc = DefaultCalc | ConstantCalc datum | FunctionCalc "element option \<Rightarrow> datum"


text \<open>
  \<^verbatim>\<open>this[a]\<close> for a name of the mandatory-attribute list: no such member, or a
  zero-argument accessor with the truthiness of what it returns.
\<close>

datatype member = NoSuchMember | Accessor bool

record chart =
  dcFlag :: nat
  p_dimension :: "dimension option"
  p_group :: "datum list option"
  p_anchor :: "anchor_ref option"
  p_root :: root_ref
  p_svg :: "selection option"
  p_minWidth :: datum
  p_widthCalc :: calc
  p_minHeight :: datum
  p_heightCalc :: calc
  p_width :: datum
  p_height :: datum
  p_controlsUseVisibility :: bool
  p_transitionDuration :: int
  p_transitionDelay :: int
  p_mandatoryAttributesList :: "string list option"
  p_chartGroup :: datum
  p_legend :: "unit option"
  p_commitHandler :: "(bool \<Rightarrow> datum list) option"
  p_filters :: "jsval list"
  p_filterHandler :: "dimension \<Rightarrow> jsval list \<Rightarrow> error + dimension \<times> jsval list option"
  p_hasFilterHandler :: "jsval list \<Rightarrow> jsval \<Rightarrow> bool"
  p_removeFilterHandler :: "jsval list \<Rightarrow> jsval \<Rightarrow> jsval list"
  p_addFilterHandler :: "jsval list \<Rightarrow> jsval \<Rightarrow> jsval list"
  p_resetFilterHandler :: "jsval list \<Rightarrow> jsval list"
  other_members :: "string \<Rightarrow> member"
  trace :: "event list"

definition emit :: "event \<Rightarrow> chart \<Rightarrow> chart" where
  "emit e c = c\<lparr>trace := trace c @ [e]\<rparr>"

text \<open>
  The constructor.  \<open>uid\<close> is the value of \<^verbatim>\<open>utils.uniqueId()\<close> and \<open>default_group\<close> the
  constant \<^verbatim>\<open>constants.DEFAULT_CHART_GROUP\<close>, both defined outside this source file.
\<close>

definition BaseMixin :: "nat \<Rightarrow> datum \<Rightarrow> chart" where
  "BaseMixin uid default_group =
     \<lparr> dcFlag = uid,
       p_dimension = None,
       p_group = None,
       p_anchor = None,
       p_root = RootUndefined,
       p_svg = None,
       p_minWidth = DNum 200,
       p_widthCalc = DefaultCalc,
       p_minHeight = DNum 200,
       p_heightCalc = DefaultCalc,
       p_width = DUndefined,
       p_height = DUndefined,
       p_controlsUseVisibility = False,
       p_transitionDuration = 750,
       p_transitionDelay = 0,
       p_mandatoryAttributesList = Some [''dimension'', ''group''],
       p_chartGroup = default_group,
       p_legend = None,
       p_commitHandler = None,
       p_filters = [],
       p_filterHandler = defaultFilterHandler,
       p_hasFilterHandler = defaultHasFilterHandler,
       p_removeFilterHandler = defaultRemoveFilterHandler,
       p_addFilterHandler = defaultAddFilterHandler,
       p_resetFilterHandler = defaultResetFilterHandler,
       other_members = (\<lambda>a. NoSuchMember),
       trace = [] \<rparr>"

subsection \<open>Geometry\<close>

text \<open>
  Modelled from the spec: \<^verbatim>\<open>utils.isNumber\<close> and \<^verbatim>\<open>utils.constant\<close> are defined outside this
  source file.  The spec has the getters cache "the numeric result" of the calculator;
  \<^verbatim>\<open>NaN\<close> does not count as one.
\<close>

fun isNumber :: "datum \<Rightarrow> bool" where
  "isNumber (DNum n) = True"
| "isNumber d = False"


definition defaultHeightCalc :: "chart \<Rightarrow> element option \<Rightarrow> datum \<times> chart" where
  "defaultHeightCalc c el =
     (case el of
        None \<Rightarrow> (p_minHeight c, c)
      | Some e \<Rightarrow>
          (case rect e of
             None \<Rightarrow> (p_minHeight c, c)
           | Some (w, h) \<Rightarrow>
               (if truthy h \<and> js_gt h (p_minHeight c) then h else p_minHeight c,
                emit GetBoundingClientRect c)))"


definition heightCalc :: "chart \<Rightarrow> element option \<Rightarrow> datum \<times> chart" where
  "heightCalc c el =
     (case p_heightCalc c of
        DefaultCalc \<Rightarrow> defaultHeightCalc (emit HeightCalcCall c) el
      | ConstantCalc v \<Rightarrow> (v, emit HeightCalcCall c)
      | FunctionCalc f \<Rightarrow> (f el, emit HeightCalcCall c))"


definition height :: "chart \<Rightarrow> error + datum \<times> chart" where
  "height c =
     (if \<not> isNumber (p_height c) then
        (case p_root c of
           Root r \<Rightarrow> (case heightCalc c (node r) of (h, c') \<Rightarrow> Inr (h, c'\<lparr>p_height := h\<rparr>))
         | RootUndefined \<Rightarrow> Inl (TypeError ''Cannot read properties of undefined'')
         | RootNull \<Rightarrow> Inl (TypeError ''Cannot read properties of null''))
      else Inr (p_height c, c))"





subsection \<open>Rendering\<close>


text \<open>
  \<^verbatim>\<open>this[a]\<close>: the accessors \<^verbatim>\<open>dimension\<close> and \<^verbatim>\<open>group\<close> return the fields; the other
  names are looked up in \<open>other_members\<close>.
\<close>

definition member :: "chart \<Rightarrow> string \<Rightarrow> member" where
  "member c a =
     (if a = ''dimension'' then Accessor (p_dimension c \<noteq> None)
      else if a = ''group'' then Accessor (p_group c \<noteq> None)
      else other_members c a)"





subsection \<open>The commit gate\<close>

text \<open>
  A commit handler is given the flag and the completion callback.  It is modelled by the error
  arguments of the calls it makes to the callback, in order (none when it never calls back); the
  callback runs at once for each.
\<close>

definition redrawGroup :: "chart \<Rightarrow> chart" where
  "redrawGroup c =
     (case p_commitHandler c of
        Some h \<Rightarrow>
          foldl (\<lambda>c' err. if truthy err then emit (ConsoleLog err) c'
                           else emit (RedrawAll (p_chartGroup c')) c')
            (emit (CommitHandlerCall False) c) (h False)
      | None \<Rightarrow> emit (RedrawAll (p_chartGroup c)) c)"

definition renderGroup :: "chart \<Rightarrow> chart" where
  "renderGroup c =
     (case p_commitHandler c of
        Some h \<Rightarrow>
          foldl (\<lambda>c' err. if truthy err then emit (ConsoleLog err) c'
                           else emit (RenderAll (p_chartGroup c')) c')
            (emit (CommitHandlerCall False) c) (h False)
      | None \<Rightarrow> emit (RenderAll (p_chartGroup c)) c)"

subsection \<open>Filters\<close>

definition hasFilter :: "chart \<Rightarrow> jsval \<Rightarrow> bool" where
  "hasFilter c flt = p_hasFilterHandler c (p_filters c) flt"

definition filters :: "chart \<Rightarrow> jsval list" where
  "filters c = p_filters c"

text \<open>\<^verbatim>\<open>filter()\<close> without an argument.\<close>

definition filter_get :: "chart \<Rightarrow> jsval" where
  "filter_get c = (case p_filters c of [] \<Rightarrow> Plain DNull | f # fs \<Rightarrow> f)"

definition turnOnControls :: "chart \<Rightarrow> chart" where
  "turnOnControls c =
     (case p_root c of
        Root r \<Rightarrow>
          (let attribute = (if p_controlsUseVisibility c then ''visibility'' else ''display'') in
           emit (Style ''.filter'' attribute None)
             (emit (TextFilters ''.filter'' (filters c))
                (emit (Style ''.reset'' attribute None) c)))
      | _ \<Rightarrow> c)"

definition turnOffControls :: "chart \<Rightarrow> chart" where
  "turnOffControls c =
     (case p_root c of
        Root r \<Rightarrow>
          (let attribute = (if p_controlsUseVisibility c then ''visibility'' else ''display'');
               v = (if p_controlsUseVisibility c then ''hidden'' else ''none'') in
           emit (TextValue ''.filter'' (filter_get c))
             (emit (Style ''.filter'' attribute (Some v))
                (emit (Style ''.reset'' attribute (Some v)) c)))
      | _ \<Rightarrow> c)"

definition invokeFilteredListener :: "chart \<Rightarrow> jsval \<Rightarrow> chart" where
  "invokeFilteredListener c f =
     (if \<not> is_undefined f then emit (ListenersCall ''filtered'' (Some f)) c else c)"

text \<open>
  \<^verbatim>\<open>applyFilters(filters)\<close>: the chart, whose dimension has received the operation, and the
  list returned.  A handler returns \<open>None\<close> when what it returns is falsy.
\<close>

definition applyFilters :: "chart \<Rightarrow> jsval list \<Rightarrow> error + chart \<times> jsval list" where
  "applyFilters c fs =
     (case p_dimension c of
        Some dim \<Rightarrow>
          if has_filter_method dim then
            (case p_filterHandler c dim fs of
               Inl e \<Rightarrow> Inl e
             | Inr (dim', r) \<Rightarrow>
                 Inr (c\<lparr>p_dimension := Some dim'\<rparr>, (case r of Some fs' \<Rightarrow> fs' | None \<Rightarrow> fs)))
          else Inr (c, fs)
      | None \<Rightarrow> Inr (c, fs))"

text \<open>One toggle: remove the filter if the has-handler finds it, add it otherwise.\<close>

definition toggle :: "chart \<Rightarrow> jsval list \<Rightarrow> jsval \<Rightarrow> jsval list" where
  "toggle c fs f =
     (if p_hasFilterHandler c fs f then p_removeFilterHandler c fs f
      else p_addFilterHandler c fs f)"

text \<open>
  The test \<^verbatim>\<open>filter instanceof Array && filter[0] instanceof Array && !filter.isFiltered\<close>:
  the values to toggle one by one, if the argument is such a nested array.
\<close>

fun nestedValues :: "jsval \<Rightarrow> datum list option" where
  "nestedValues (Plain (DArr (DArr inner # rest))) = Some inner"
| "nestedValues v = None"

text \<open>The list that \<^verbatim>\<open>filter(f)\<close> computes before it applies it to the data source.\<close>

definition toggledFilters :: "chart \<Rightarrow> jsval \<Rightarrow> jsval list" where
  "toggledFilters c flt =
     (case nestedValues flt of
        Some inner \<Rightarrow> foldl (toggle c) (p_filters c) (map Plain inner)
      | None \<Rightarrow>
          if is_null flt then p_resetFilterHandler c (p_filters c)
          else toggle c (p_filters c) flt)"

text \<open>
  \<^verbatim>\<open>filter(f)\<close> with an argument.  The chart after an exception is not modelled.
\<close>

definition filter_set :: "chart \<Rightarrow> jsval \<Rightarrow> error + chart" where
  "filter_set c flt =
     (case applyFilters c (toggledFilters c flt) of
        Inl e \<Rightarrow> Inl e
      | Inr (c1, fs) \<Rightarrow>
          (let c2 = invokeFilteredListener (c1\<lparr>p_filters := fs\<rparr>) flt in
           Inr (if p_root c2 \<noteq> RootNull \<and> hasFilter c2 (Plain DUndefined)
                then turnOnControls c2 else turnOffControls c2)))"

definition replaceFilter :: "chart \<Rightarrow> jsval \<Rightarrow> error + chart" where
  "replaceFilter c flt = filter_set (c\<lparr>p_filters := p_resetFilterHandler c (p_filters c)\<rparr>) flt"

section \<open>Notions used in the statements\<close>

text \<open>The events a call has added to the trace of the chart it started from.\<close>

definition since :: "chart \<Rightarrow> chart \<Rightarrow> event list" where
  "since c c' = drop (length (trace c)) (trace c')"

text \<open>A group-wide fan-out is a call of \<^verbatim>\<open>redrawAll\<close> or of \<^verbatim>\<open>renderAll\<close>.\<close>

fun isFanOut :: "event \<Rightarrow> bool" where
  "isFanOut (RedrawAll g) = True"
| "isFanOut (RenderAll g) = True"
| "isFanOut e = False"

definition fanOuts :: "event list \<Rightarrow> nat" where
  "fanOuts es = length (filter isFanOut es)"

text \<open>A chart with a commit handler that calls back once, without an error.\<close>

definition commitChart :: chart where
  "commitChart = (BaseMixin 1 (DStr ''group''))\<lparr>p_commitHandler := Some (\<lambda>isRender. [DNull])\<rparr>"

text \<open>A chart with a commit handler that calls back once, with an error.\<close>

definition failingCommitChart :: chart where
  "failingCommitChart =
     (BaseMixin 2 (DStr ''group''))\<lparr>p_commitHandler := Some (\<lambda>isRender. [DStr ''offline''])\<rparr>"




definition valuesChart :: chart where
  "valuesChart = (BaseMixin 5 (DStr ''group''))\<lparr>p_filters := [Plain (DNum 5), Plain (DNum 7)]\<rparr>"

text \<open>The chart has all five default filter handlers.\<close>

definition defaultHandlers :: "chart \<Rightarrow> bool" where
  "defaultHandlers c =
     (p_filterHandler c = defaultFilterHandler \<and>
      p_hasFilterHandler c = defaultHasFilterHandler \<and>
      p_removeFilterHandler c = defaultRemoveFilterHandler \<and>
      p_addFilterHandler c = defaultAddFilterHandler \<and>
      p_resetFilterHandler c = defaultResetFilterHandler)"

text \<open>No data source is attached: no dimension, or one without a \<^verbatim>\<open>filter\<close> method.\<close>

definition noDataSource :: "chart \<Rightarrow> bool" where
  "noDataSource c = (case p_dimension c of None \<Rightarrow> True | Some dim \<Rightarrow> \<not> has_filter_method dim)"

text \<open>The number of operations the data source of the chart has received.\<close>

definition applied :: "chart \<Rightarrow> nat" where
  "applied c = (case p_dimension c of None \<Rightarrow> 0 | Some dim \<Rightarrow> length (calls dim))"

text \<open>The filter list a call leaves, or the exception it throws.\<close>

fun filtersOf :: "error + chart \<Rightarrow> error + jsval list" where
  "filtersOf (Inl e) = Inl e"
| "filtersOf (Inr c) = Inr (p_filters c)"


definition filterNullThenFilter :: "chart \<Rightarrow> jsval \<Rightarrow> error + chart" where
  "filterNullThenFilter c v =
     (case filter_set c (Plain DNull) of Inl e \<Rightarrow> Inl e | Inr c1 \<Rightarrow> filter_set c1 v)"

text \<open>A value that is neither \<^verbatim>\<open>null\<close> nor \<^verbatim>\<open>undefined\<close>.\<close>

definition isValue :: "jsval \<Rightarrow> bool" where
  "isValue v = (\<not> is_null v \<and> \<not> is_undefined v)"

text \<open>The test \<^verbatim>\<open>a <= b && a >= b\<close> of the handlers.\<close>

definition equalOrWithin :: "jsval \<Rightarrow> jsval \<Rightarrow> bool" where
  "equalOrWithin a b = (js_le (operand a) (operand b) \<and> js_ge (operand a) (operand b))"

text \<open>A chart with a data source that has received nothing yet.\<close>

definition sourceChart :: chart where
  "sourceChart =
     (BaseMixin 6 (DStr ''group''))\<lparr>p_dimension := Some \<lparr>has_filter_method = True, calls = []\<rparr>\<rparr>"

text \<open>
  A filter handler of a caller that never leaves the data unfiltered: for the empty list it
  filters on the year 2020 and returns that as the list to record.
\<close>

definition pinnedFilterHandler ::
  "dimension \<Rightarrow> jsval list \<Rightarrow> error + dimension \<times> jsval list option" where
  "pinnedFilterHandler dim fs =
     (case fs of
        [] \<Rightarrow> Inr (dim_call dim (CallFilterExact (Plain (DNum 2020))), Some [Plain (DNum 2020)])
      | f # rest \<Rightarrow> defaultFilterHandler dim fs)"

definition pinnedChart :: chart where
  "pinnedChart = sourceChart\<lparr>p_filterHandler := pinnedFilterHandler\<rparr>"

text \<open>
  A filter handler of a caller that forwards the list to the default handler and returns
  nothing, and a chart that uses it.
\<close>

definition voidFilterHandler ::
  "dimension \<Rightarrow> jsval list \<Rightarrow> error + dimension \<times> jsval list option" where
  "voidFilterHandler dim fs =
     (case defaultFilterHandler dim fs of Inl e \<Rightarrow> Inl e | Inr (dim', r) \<Rightarrow> Inr (dim', None))"

definition voidChart :: chart where
  "voidChart = sourceChart\<lparr>p_filterHandler := voidFilterHandler\<rparr>"

text \<open>A chart whose dimension is an object without a \<^verbatim>\<open>filter\<close> method.\<close>

definition methodlessChart :: chart where
  "methodlessChart =
     (BaseMixin 7 (DStr ''group''))\<lparr>p_dimension := Some \<lparr>has_filter_method = False, calls = []\<rparr>\<rparr>"










section \<open>Basic facts\<close>

lemma emit_fields [simp]:
  "trace (emit e c) = trace c @ [e]"
  "p_filters (emit e c) = p_filters c"
  "p_dimension (emit e c) = p_dimension c"
  "p_root (emit e c) = p_root c"
  "p_chartGroup (emit e c) = p_chartGroup c"
  "p_hasFilterHandler (emit e c) = p_hasFilterHandler c"
  "p_width (emit e c) = p_width c"
  "p_height (emit e c) = p_height c"
  "p_widthCalc (emit e c) = p_widthCalc c"
  "p_heightCalc (emit e c) = p_heightCalc c"
  "p_minWidth (emit e c) = p_minWidth c"
  "p_minHeight (emit e c) = p_minHeight c"
  by (simp_all add: emit_def)

lemma since_append [simp]: "trace c' = trace c @ es \<Longrightarrow> since c c' = es"
  by (simp add: since_def)

section \<open>The commit gate\<close>

text \<open>
  Claim C1.  The commit handler is documented to receive \<open>true\<close> for a render and \<open>false\<close> for a
  redraw.  \<^verbatim>\<open>renderGroup()\<close> on a chart with a commit handler nevertheless calls the handler
  with \<open>false\<close>, as \<^verbatim>\<open>redrawGroup()\<close> does, and then renders the group.
\<close>

theorem renderGroup_passes_false:
  "trace (renderGroup commitChart) = [CommitHandlerCall False, RenderAll (DStr ''group'')] \<and>
   trace (redrawGroup commitChart) = [CommitHandlerCall False, RedrawAll (DStr ''group'')]"
  by (simp add: renderGroup_def redrawGroup_def commitChart_def BaseMixin_def)

text \<open>
  Claim C8.  When the commit handler of a chart calls its completion callback once, with an
  error, \<^verbatim>\<open>redrawGroup()\<close> and \<^verbatim>\<open>renderGroup()\<close> make no group-wide fan-out; when it calls
  back once with no error, they make exactly one; and a chart without a commit handler does
  nothing but the fan-out, at once.
\<close>

theorem commit_gate:
  "(p_commitHandler c = Some h \<and> (\<forall>isRender. h isRender = [err]) \<and> truthy err \<longrightarrow>
      fanOuts (since c (redrawGroup c)) = 0 \<and> fanOuts (since c (renderGroup c)) = 0) \<and>
   (p_commitHandler c = Some h \<and> (\<forall>isRender. h isRender = [err]) \<and> \<not> truthy err \<longrightarrow>
      fanOuts (since c (redrawGroup c)) = 1 \<and> fanOuts (since c (renderGroup c)) = 1 \<and>
      RedrawAll (p_chartGroup c) \<in> set (since c (redrawGroup c)) \<and>
      RenderAll (p_chartGroup c) \<in> set (since c (renderGroup c))) \<and>
   (p_commitHandler c = None \<longrightarrow>
      since c (redrawGroup c) = [RedrawAll (p_chartGroup c)] \<and>
      since c (renderGroup c) = [RenderAll (p_chartGroup c)])"
  by (simp add: redrawGroup_def renderGroup_def fanOuts_def)

theorem commit_gate_witness:
  "fanOuts (since failingCommitChart (redrawGroup failingCommitChart)) = 0 \<and>
   fanOuts (since failingCommitChart (renderGroup failingCommitChart)) = 0 \<and>
   fanOuts (since commitChart (redrawGroup commitChart)) = 1 \<and>
   fanOuts (since commitChart (renderGroup commitChart)) = 1 \<and>
   since (BaseMixin 3 (DStr ''group'')) (redrawGroup (BaseMixin 3 (DStr ''group''))) =
     [RedrawAll (DStr ''group'')]"
proof -
  have failing: "p_commitHandler failingCommitChart = Some (\<lambda>isRender. [DStr ''offline''])"
    by (simp add: failingCommitChart_def)
  have succeeding: "p_commitHandler commitChart = Some (\<lambda>isRender. [DNull])"
    by (simp add: commitChart_def)
  have none: "p_commitHandler (BaseMixin 3 (DStr ''group'')) = None"
    "p_chartGroup (BaseMixin 3 (DStr ''group'')) = DStr ''group''"
    by (simp_all add: BaseMixin_def)
  from failing
    commit_gate [of failingCommitChart "\<lambda>isRender. [DStr ''offline'']" "DStr ''offline''"]
  have "fanOuts (since failingCommitChart (redrawGroup failingCommitChart)) = 0"
    "fanOuts (since failingCommitChart (renderGroup failingCommitChart)) = 0"
    by simp_all
  moreover from succeeding commit_gate [of commitChart "\<lambda>isRender. [DNull]" DNull]
  have "fanOuts (since commitChart (redrawGroup commitChart)) = 1"
    "fanOuts (since commitChart (renderGroup commitChart)) = 1"
    by simp_all
  moreover from none commit_gate [of "BaseMixin 3 (DStr ''group'')"]
  have "since (BaseMixin 3 (DStr ''group'')) (redrawGroup (BaseMixin 3 (DStr ''group''))) =
     [RedrawAll (DStr ''group'')]"
    by simp
  ultimately show ?thesis by simp
qed

section \<open>The has-filter check\<close>

lemma js_lt_nums [simp]: "js_lt (DNum m) (DNum n) = Some (m < n)"
  by (simp add: js_lt_def)

lemma js_le_nums [simp]: "js_le (DNum m) (DNum n) = (m \<le> n)"
  by (auto simp add: js_le_def)

lemma js_ge_nums [simp]: "js_ge (DNum m) (DNum n) = (n \<le> m)"
  by (auto simp add: js_ge_def)

lemma js_less_nums [simp]: "js_less (DNum m) (DNum n) = (m < n)"
  by (simp add: js_less_def)

lemma BaseMixin_handlers [simp]:
  "p_filterHandler (BaseMixin uid g) = defaultFilterHandler"
  "p_hasFilterHandler (BaseMixin uid g) = defaultHasFilterHandler"
  "p_removeFilterHandler (BaseMixin uid g) = defaultRemoveFilterHandler"
  "p_addFilterHandler (BaseMixin uid g) = defaultAddFilterHandler"
  "p_resetFilterHandler (BaseMixin uid g) = defaultResetFilterHandler"
  by (simp_all add: BaseMixin_def)




section \<open>Toggling, resetting and applying filters\<close>

lemma controls_fields [simp]:
  "p_filters (turnOnControls c) = p_filters c"
  "p_filters (turnOffControls c) = p_filters c"
  "p_filters (invokeFilteredListener c v) = p_filters c"
  "p_dimension (turnOnControls c) = p_dimension c"
  "p_dimension (turnOffControls c) = p_dimension c"
  "p_dimension (invokeFilteredListener c v) = p_dimension c"
  "p_root (invokeFilteredListener c v) = p_root c"
  by (simp_all add: turnOnControls_def turnOffControls_def invokeFilteredListener_def
      emit_def Let_def split: root_ref.splits)

lemma controls_handlers [simp]:
  "defaultHandlers (turnOnControls c) = defaultHandlers c"
  "defaultHandlers (turnOffControls c) = defaultHandlers c"
  "defaultHandlers (invokeFilteredListener c v) = defaultHandlers c"
  "defaultHandlers (c\<lparr>p_filters := fs\<rparr>) = defaultHandlers c"
  "defaultHandlers (c\<lparr>p_dimension := d\<rparr>) = defaultHandlers c"
  by (simp_all add: defaultHandlers_def turnOnControls_def turnOffControls_def
      invokeFilteredListener_def emit_def Let_def split: root_ref.splits)

lemma controls_trace:
  "\<exists>es. trace (turnOnControls c) = trace c @ es"
  "\<exists>es. trace (turnOffControls c) = trace c @ es"
  by (simp_all add: turnOnControls_def turnOffControls_def Let_def split: root_ref.splits)

lemma defaultFilterHandler_succeeds:
  assumes "\<forall>e \<in> set fs. isValue e"
  shows "\<exists>op. defaultFilterHandler dim fs = Inr (dim_call dim op, Some fs)"
proof (cases "(dim, fs)" rule: defaultFilterHandler.cases)
  case (1 d)
  then show ?thesis by auto
next
  case (2 d f)
  with assms have "isValue f" by simp
  then obtain r where "prop_isFiltered f = Inr r" "\<exists>t. prop_filterType f = Inr t"
    by (cases f rule: prop_isFiltered.cases) (simp_all add: isValue_def)
  with 2 show ?thesis by (auto split: option.splits)
next
  case (3 d f g rest)
  then show ?thesis by auto
qed

lemma controls_has [simp]:
  "p_hasFilterHandler (turnOnControls c) = p_hasFilterHandler c"
  "p_hasFilterHandler (turnOffControls c) = p_hasFilterHandler c"
  "p_hasFilterHandler (invokeFilteredListener c v) = p_hasFilterHandler c"
  by (simp_all add: turnOnControls_def turnOffControls_def invokeFilteredListener_def
      emit_def Let_def split: root_ref.splits)

lemma invokeFilteredListener_trace:
  "trace (invokeFilteredListener c v) =
     trace c @ (if is_undefined v then [] else [ListenersCall ''filtered'' (Some v)])"
  by (simp add: invokeFilteredListener_def)

lemma applyFilters_noDataSource: "noDataSource c \<Longrightarrow> applyFilters c fs = Inr (c, fs)"
  by (simp add: applyFilters_def noDataSource_def split: option.splits)

lemma applyFilters_default:
  assumes "p_filterHandler c = defaultFilterHandler" and "\<forall>e \<in> set fs. isValue e"
  shows "\<exists>d. applyFilters c fs = Inr (c\<lparr>p_dimension := d\<rparr>, fs)"
proof (cases "noDataSource c")
  case True
  then have "applyFilters c fs = Inr (c\<lparr>p_dimension := p_dimension c\<rparr>, fs)"
    by (simp add: applyFilters_noDataSource)
  then show ?thesis by blast
next
  case False
  then obtain dim where dim: "p_dimension c = Some dim" "has_filter_method dim"
    by (auto simp add: noDataSource_def split: option.splits)
  from defaultFilterHandler_succeeds [OF assms(2), of dim]
  obtain op where "defaultFilterHandler dim fs = Inr (dim_call dim op, Some fs)" by blast
  with dim assms(1)
  have "applyFilters c fs = Inr (c\<lparr>p_dimension := Some (dim_call dim op)\<rparr>, fs)"
    by (simp add: applyFilters_def)
  then show ?thesis by blast
qed

text \<open>What \<^verbatim>\<open>filter(v)\<close> leaves once the filters have been applied without an exception.\<close>

lemma filter_set_result:
  assumes "applyFilters c (toggledFilters c v) = Inr (c1, fs)"
  shows "\<exists>c2. filter_set c v = Inr c2 \<and> p_filters c2 = fs \<and>
           p_dimension c2 = p_dimension c1 \<and>
           defaultHandlers c2 = defaultHandlers c1 \<and>
           p_hasFilterHandler c2 = p_hasFilterHandler c1 \<and>
           (\<exists>es. trace c2 =
              trace c1 @ (if is_undefined v then [] else [ListenersCall ''filtered'' (Some v)]) @ es)"
proof -
  let ?c2 = "invokeFilteredListener (c1\<lparr>p_filters := fs\<rparr>) v"
  have tr: "trace ?c2 =
      trace c1 @ (if is_undefined v then [] else [ListenersCall ''filtered'' (Some v)])"
    by (simp add: invokeFilteredListener_trace)
  show ?thesis
  proof (cases "p_root ?c2 \<noteq> RootNull \<and> hasFilter ?c2 (Plain DUndefined)")
    case True
    with assms have "filter_set c v = Inr (turnOnControls ?c2)"
      by (simp add: filter_set_def Let_def)
    moreover obtain es where "trace (turnOnControls ?c2) = trace ?c2 @ es"
      using controls_trace(1) by blast
    ultimately show ?thesis using tr by simp
  next
    case False
    with assms have "filter_set c v = Inr (turnOffControls ?c2)"
      by (auto simp add: filter_set_def Let_def)
    moreover obtain es where "trace (turnOffControls ?c2) = trace ?c2 @ es"
      using controls_trace(2) by blast
    ultimately show ?thesis using tr by simp
  qed
qed

text \<open>
  Claim C7, as stated, fails: the chart has the default reset handler, and a filter handler of
  its own that returns the list it wants recorded.  \<^verbatim>\<open>filter(null)\<close> records that list, which
  is not empty.
\<close>

theorem reset_law_counterexample:
  "p_resetFilterHandler pinnedChart = defaultResetFilterHandler \<and>
   filtersOf (filter_set pinnedChart (Plain DNull)) = Inr [Plain (DNum 2020)]"
  by (simp add: pinnedChart_def sourceChart_def filter_set_def toggledFilters_def
      applyFilters_def pinnedFilterHandler_def defaultResetFilterHandler_def Let_def
      hasFilter_def defaultHasFilterHandler_def)

text \<open>
  Claim C7, amended.  For every chart with the default reset and has-filter handlers, and
  with no data source or the default filter handler, \<^verbatim>\<open>filter(null)\<close> leaves the filter list
  empty whatever it held before, and \<^verbatim>\<open>hasFilter()\<close> then returns false.
\<close>

theorem reset_law:
  assumes "p_resetFilterHandler c = defaultResetFilterHandler"
    and "p_hasFilterHandler c = defaultHasFilterHandler"
    and "noDataSource c \<or> p_filterHandler c = defaultFilterHandler"
  shows "\<exists>c'. filter_set c (Plain DNull) = Inr c' \<and> p_filters c' = [] \<and>
           hasFilter c' (Plain DUndefined) = False"
proof -
  have toggled: "toggledFilters c (Plain DNull) = []"
    using assms(1) by (simp add: toggledFilters_def defaultResetFilterHandler_def)
  have "\<exists>d. applyFilters c [] = Inr (c\<lparr>p_dimension := d\<rparr>, [])"
  proof (cases "noDataSource c")
    case True
    then have "applyFilters c [] = Inr (c\<lparr>p_dimension := p_dimension c\<rparr>, [])"
      by (simp add: applyFilters_noDataSource)
    then show ?thesis by blast
  next
    case False
    with assms(3) show ?thesis by (simp add: applyFilters_default)
  qed
  then obtain d where "applyFilters c (toggledFilters c (Plain DNull)) = Inr (c\<lparr>p_dimension := d\<rparr>, [])"
    using toggled by auto
  from filter_set_result [OF this]
  obtain c' where c': "filter_set c (Plain DNull) = Inr c'" "p_filters c' = []"
    "p_hasFilterHandler c' = p_hasFilterHandler (c\<lparr>p_dimension := d\<rparr>)"
    by blast
  with assms(2) have "hasFilter c' (Plain DUndefined) = False"
    by (simp add: hasFilter_def defaultHasFilterHandler_def)
  with c' show ?thesis by blast
qed

theorem reset_law_witness:
  "\<exists>c'. filter_set valuesChart (Plain DNull) = Inr c' \<and> p_filters c' = [] \<and>
           hasFilter c' (Plain DUndefined) = False"
proof -
  have "p_resetFilterHandler valuesChart = defaultResetFilterHandler"
    "p_hasFilterHandler valuesChart = defaultHasFilterHandler"
    "noDataSource valuesChart \<or> p_filterHandler valuesChart = defaultFilterHandler"
    by (simp_all add: valuesChart_def)
  then show ?thesis by (rule reset_law)
qed

text \<open>
  Claim C10.  \<^verbatim>\<open>applyFilters(candidateList)\<close> returns the candidate list unchanged when no
  dimension is bound, when the bound dimension has no \<^verbatim>\<open>filter\<close> method, and when the
  installed filter handler returns a falsy value.  So on a chart without a data source
  \<^verbatim>\<open>filter(value)\<close> records the toggled list and, for a value that is not \<^verbatim>\<open>undefined\<close>,
  calls the listeners of \<^verbatim>\<open>filtered\<close> with the value.
\<close>

theorem applyFilters_unchanged:
  "(p_dimension c = None \<longrightarrow> applyFilters c fs = Inr (c, fs)) \<and>
   (p_dimension c = Some dim \<and> \<not> has_filter_method dim \<longrightarrow> applyFilters c fs = Inr (c, fs)) \<and>
   (p_dimension c = Some dim \<and> has_filter_method dim \<and>
      p_filterHandler c dim fs = Inr (dim', None) \<longrightarrow>
      applyFilters c fs = Inr (c\<lparr>p_dimension := Some dim'\<rparr>, fs)) \<and>
   (p_dimension c = None \<longrightarrow>
      (\<exists>c'. filter_set c v = Inr c' \<and> p_filters c' = toggledFilters c v \<and>
            (\<not> is_undefined v \<longrightarrow> ListenersCall ''filtered'' (Some v) \<in> set (since c c'))))"
proof -
  have "\<exists>c'. filter_set c v = Inr c' \<and> p_filters c' = toggledFilters c v \<and>
            (\<not> is_undefined v \<longrightarrow> ListenersCall ''filtered'' (Some v) \<in> set (since c c'))"
    if none: "p_dimension c = None"
  proof -
    from none have "applyFilters c (toggledFilters c v) = Inr (c, toggledFilters c v)"
      by (simp add: applyFilters_def)
    from filter_set_result [OF this]
    obtain c' es where c': "filter_set c v = Inr c'" "p_filters c' = toggledFilters c v"
      "trace c' =
         trace c @ (if is_undefined v then [] else [ListenersCall ''filtered'' (Some v)]) @ es"
      by blast
    from c'(3) have "\<not> is_undefined v \<longrightarrow> ListenersCall ''filtered'' (Some v) \<in> set (since c c')"
      by (simp add: since_def)
    with c' show ?thesis by blast
  qed
  then show ?thesis by (simp add: applyFilters_def)
qed

theorem applyFilters_unchanged_witness:
  "applyFilters (BaseMixin 5 (DStr ''group'')) [Plain (DNum 5)] =
     Inr (BaseMixin 5 (DStr ''group''), [Plain (DNum 5)]) \<and>
   applyFilters methodlessChart [Plain (DNum 5)] = Inr (methodlessChart, [Plain (DNum 5)]) \<and>
   applyFilters voidChart [Plain (DNum 5)] =
     Inr (voidChart\<lparr>p_dimension :=
            Some \<lparr>has_filter_method = True, calls = [CallFilterExact (Plain (DNum 5))]\<rparr>\<rparr>,
          [Plain (DNum 5)]) \<and>
   (\<exists>c'. filter_set (BaseMixin 5 (DStr ''group'')) (Plain (DNum 5)) = Inr c' \<and>
          p_filters c' = [Plain (DNum 5)] \<and>
          ListenersCall ''filtered'' (Some (Plain (DNum 5))) \<in>
            set (since (BaseMixin 5 (DStr ''group'')) c'))"
proof -
  let ?b = "BaseMixin 5 (DStr ''group'')"
  let ?dim = "\<lparr>has_filter_method = True, calls = []\<rparr>"
  let ?dim' = "\<lparr>has_filter_method = True, calls = [CallFilterExact (Plain (DNum 5))]\<rparr>"
  have b: "p_dimension ?b = None" by (simp add: BaseMixin_def)
  have m: "p_dimension methodlessChart = Some \<lparr>has_filter_method = False, calls = []\<rparr> \<and>
      \<not> has_filter_method \<lparr>has_filter_method = False, calls = []\<rparr>"
    by (simp add: methodlessChart_def)
  have v: "p_dimension voidChart = Some ?dim \<and> has_filter_method ?dim \<and>
      p_filterHandler voidChart ?dim [Plain (DNum 5)] = Inr (?dim', None)"
    by (simp add: voidChart_def sourceChart_def voidFilterHandler_def dim_call_def)
  have t: "toggledFilters ?b (Plain (DNum 5)) = [Plain (DNum 5)]"
    by (simp add: toggledFilters_def toggle_def BaseMixin_def defaultHasFilterHandler_def
        defaultAddFilterHandler_def)
  show ?thesis
    using b m v t
      applyFilters_unchanged [of ?b "[Plain (DNum 5)]" _ _ "Plain (DNum 5)"]
      applyFilters_unchanged [of methodlessChart "[Plain (DNum 5)]"
        "\<lparr>has_filter_method = False, calls = []\<rparr>"]
      applyFilters_unchanged [of voidChart "[Plain (DNum 5)]" ?dim ?dim']
    by simp
qed

section \<open>Toggling the same value twice\<close>

lemma js_lt_NaN [simp]: "js_lt DNaN d = None" "js_lt d DNaN = None"
  by (cases "to_primitive d"; simp add: js_lt_def split: option.splits)+



lemma defaultRemove_simps:
  "defaultRemoveFilterHandler (x # xs) v =
     (if equalOrWithin x v then xs else x # defaultRemoveFilterHandler xs v)"
  by (simp add: equalOrWithin_def)


lemma defaultRemove_absent:
  "\<not> (\<exists>e \<in> set fs. equalOrWithin e v) \<Longrightarrow> defaultRemoveFilterHandler fs v = fs"
  by (induction fs) (auto simp add: equalOrWithin_def)









section \<open>Replacing the filter\<close>

lemma defaultFilterHandler_uniform:
  "\<exists>r. \<forall>dim. defaultFilterHandler dim fs =
          (case r of Inl e \<Rightarrow> Inl e | Inr op \<Rightarrow> Inr (dim_call dim op, Some fs))"
proof (cases "(undefined :: dimension, fs)" rule: defaultFilterHandler.cases)
  case (1 d)
  then have "\<forall>dim. defaultFilterHandler dim fs =
      (case Inr (CallFilter (Plain DNull)) of Inl e \<Rightarrow> Inl e
       | Inr op \<Rightarrow> Inr (dim_call dim op, Some fs))"
    by simp
  then show ?thesis by blast
next
  case (2 d f)
  let ?r = "case prop_isFiltered f of
      Inl e \<Rightarrow> Inl e
    | Inr None \<Rightarrow> Inr (CallFilterExact f)
    | Inr (Some p) \<Rightarrow>
        (case prop_filterType f of
           Inl e \<Rightarrow> Inl e
         | Inr t \<Rightarrow> if t = Some ''RangedFilter'' then Inr (CallFilterRange f)
                    else Inr (CallFilterFunction (filterPredicate [f])))"
  from 2 have "\<forall>dim. defaultFilterHandler dim fs =
      (case ?r of Inl e \<Rightarrow> Inl e | Inr op \<Rightarrow> Inr (dim_call dim op, Some fs))"
    by (simp split: sum.splits option.splits)
  then show ?thesis by blast
next
  case (3 d f g rest)
  then have "\<forall>dim. defaultFilterHandler dim fs =
      (case Inr (CallFilterFunction (filterPredicate fs)) of Inl e \<Rightarrow> Inl e
       | Inr op \<Rightarrow> Inr (dim_call dim op, Some fs))"
    by simp
  then show ?thesis by blast
qed

lemma toggledFilters_eq:
  assumes "defaultHandlers c" "defaultHandlers c'" "p_filters c = p_filters c'"
  shows "toggledFilters c v = toggledFilters c' v"
proof -
  have "toggle c = toggle c'"
    using assms(1,2) by (intro ext) (simp add: toggle_def defaultHandlers_def)
  with assms show ?thesis
    by (simp add: toggledFilters_def defaultHandlers_def split: option.splits)
qed

lemma toggledFilters_empty:
  assumes "defaultHandlers c" "p_filters c = []" "\<not> is_undefined v" "nestedValues v = None"
  shows "\<forall>e \<in> set (toggledFilters c v). isValue e"
  using assms
  by (auto simp add: toggledFilters_def toggle_def defaultHandlers_def isValue_def
      defaultResetFilterHandler_def defaultHasFilterHandler_def defaultAddFilterHandler_def)

lemma filter_set_Inl:
  "applyFilters c (toggledFilters c v) = Inl e \<Longrightarrow> filter_set c v = Inl e"
  by (simp add: filter_set_def)

lemma applied_dim_call:
  "p_dimension c' = Some (dim_call dim op) \<Longrightarrow> applied c' = Suc (length (calls dim))"
  by (simp add: applied_def dim_call_def)

text \<open>
  Claim C3.  On a chart with the default handlers and a data source, \<^verbatim>\<open>replaceFilter(v)\<close>
  leaves the filter list that \<^verbatim>\<open>filter(null)\<close> followed by \<^verbatim>\<open>filter(v)\<close> leaves (or throws the
  exception that these throw), and the data source receives one operation where the two calls
  give it two.  The call returns for every \<open>v\<close> that is not \<^verbatim>\<open>undefined\<close> nor an array of
  arrays.
\<close>

theorem replaceFilter_applies_once:
  assumes dh: "defaultHandlers c"
    and dim: "p_dimension c = Some dim" "has_filter_method dim"
  shows "filtersOf (replaceFilter c v) = filtersOf (filterNullThenFilter c v) \<and>
     (\<forall>c'. replaceFilter c v = Inr c' \<longrightarrow> applied c' = applied c + 1) \<and>
     (\<forall>c'. filterNullThenFilter c v = Inr c' \<longrightarrow> applied c' = applied c + 2) \<and>
     (\<not> is_undefined v \<and> nestedValues v = None \<longrightarrow> (\<exists>c'. replaceFilter c v = Inr c'))"
proof -
  let ?c0 = "c\<lparr>p_filters := p_resetFilterHandler c (p_filters c)\<rparr>"
  let ?dimA = "dim_call dim (CallFilter (Plain DNull))"
  have c0: "defaultHandlers ?c0" "p_filters ?c0 = []" "p_dimension ?c0 = Some dim"
    using dh dim by (simp_all add: defaultHandlers_def defaultResetFilterHandler_def)
  have ap: "applied c = length (calls dim)"
    using dim by (simp add: applied_def)
  \<comment> \<open>the first of the two calls, \<^verbatim>\<open>filter(null)\<close>\<close>
  have "toggledFilters c (Plain DNull) = []"
    using dh by (simp add: toggledFilters_def defaultHandlers_def defaultResetFilterHandler_def)
  moreover have "applyFilters c [] = Inr (c\<lparr>p_dimension := Some ?dimA\<rparr>, [])"
    using dh dim by (simp add: applyFilters_def defaultHandlers_def)
  ultimately have "applyFilters c (toggledFilters c (Plain DNull)) =
      Inr (c\<lparr>p_dimension := Some ?dimA\<rparr>, [])"
    by simp
  from filter_set_result [OF this]
  obtain cA where cA: "filter_set c (Plain DNull) = Inr cA" "p_filters cA = []"
    "p_dimension cA = Some ?dimA" "defaultHandlers cA"
    using dh by auto
  \<comment> \<open>the list that \<^verbatim>\<open>filter(v)\<close> computes is the same on both paths\<close>
  define L where "L = toggledFilters ?c0 v"
  have LA: "toggledFilters cA v = L"
    unfolding L_def using toggledFilters_eq [OF cA(4) c0(1)] cA(2) c0(2) by simp
  obtain r where r: "\<And>d. defaultFilterHandler d L =
      (case r of Inl e \<Rightarrow> Inl e | Inr op \<Rightarrow> Inr (dim_call d op, Some L))"
    using defaultFilterHandler_uniform [of L] by blast
  have hA: "has_filter_method ?dimA"
    using dim by (simp add: dim_call_def)
  have ap0: "applyFilters ?c0 L =
      (case r of Inl e \<Rightarrow> Inl e
       | Inr op \<Rightarrow> Inr (?c0\<lparr>p_dimension := Some (dim_call dim op)\<rparr>, L))"
    using c0 dim r [of dim] by (simp add: applyFilters_def defaultHandlers_def split: sum.splits)
  have apA: "applyFilters cA L =
      (case r of Inl e \<Rightarrow> Inl e
       | Inr op \<Rightarrow> Inr (cA\<lparr>p_dimension := Some (dim_call ?dimA op)\<rparr>, L))"
    using cA hA r [of ?dimA] by (simp add: applyFilters_def defaultHandlers_def split: sum.splits)
  have rf: "replaceFilter c v = filter_set ?c0 v"
    by (simp add: replaceFilter_def)
  have two: "filterNullThenFilter c v = filter_set cA v"
    using cA(1) by (simp add: filterNullThenFilter_def)
  have returns: "\<exists>op. r = Inr op" if "\<not> is_undefined v" "nestedValues v = None"
  proof -
    from toggledFilters_empty [OF c0(1,2) that] have "\<forall>e \<in> set L. isValue e"
      by (simp add: L_def)
    from defaultFilterHandler_succeeds [OF this, of dim] r [of dim]
    show ?thesis by (cases r) auto
  qed
  show ?thesis
  proof (cases r)
    case (Inl e)
    with ap0 apA have "filter_set ?c0 v = Inl e" "filter_set cA v = Inl e"
      by (simp_all add: filter_set_Inl L_def LA)
    with rf two returns Inl show ?thesis by auto
  next
    case (Inr op)
    with ap0 have "applyFilters ?c0 (toggledFilters ?c0 v) =
        Inr (?c0\<lparr>p_dimension := Some (dim_call dim op)\<rparr>, L)"
      by (simp add: L_def)
    from filter_set_result [OF this]
    obtain c1 where c1: "filter_set ?c0 v = Inr c1" "p_filters c1 = L"
      "p_dimension c1 = Some (dim_call dim op)"
      by auto
    from Inr apA have "applyFilters cA (toggledFilters cA v) =
        Inr (cA\<lparr>p_dimension := Some (dim_call ?dimA op)\<rparr>, L)"
      by (simp add: LA)
    from filter_set_result [OF this]
    obtain c2 where c2: "filter_set cA v = Inr c2" "p_filters c2 = L"
      "p_dimension c2 = Some (dim_call ?dimA op)"
      by auto
    have "applied c1 = applied c + 1"
      using applied_dim_call [OF c1(3)] ap by simp
    moreover have "applied c2 = applied c + 2"
      using applied_dim_call [OF c2(3)] ap by (simp add: dim_call_def)
    ultimately show ?thesis using rf two c1 c2 by auto
  qed
qed

theorem replaceFilter_applies_once_witness:
  "filtersOf (replaceFilter (sourceChart\<lparr>p_filters := [Plain (DNum 5), Plain (DNum 7)]\<rparr>)
      (Plain (DNum 9))) = Inr [Plain (DNum 9)] \<and>
   filtersOf (filterNullThenFilter (sourceChart\<lparr>p_filters := [Plain (DNum 5), Plain (DNum 7)]\<rparr>)
      (Plain (DNum 9))) = Inr [Plain (DNum 9)] \<and>
   (\<exists>c'. replaceFilter (sourceChart\<lparr>p_filters := [Plain (DNum 5), Plain (DNum 7)]\<rparr>)
      (Plain (DNum 9)) = Inr c' \<and> applied c' = 1)"
proof -
  let ?c = "sourceChart\<lparr>p_filters := [Plain (DNum 5), Plain (DNum 7)]\<rparr>"
  let ?dim = "\<lparr>has_filter_method = True, calls = []\<rparr>"
  have dh: "defaultHandlers ?c"
    by (simp add: defaultHandlers_def sourceChart_def)
  have dim: "p_dimension ?c = Some ?dim" "has_filter_method ?dim"
    by (simp_all add: sourceChart_def)
  have a0: "applied ?c = 0"
    by (simp add: applied_def sourceChart_def)
  have v: "\<not> is_undefined (Plain (DNum 9))" "nestedValues (Plain (DNum 9)) = None"
    by simp_all
  have fs: "filtersOf (replaceFilter ?c (Plain (DNum 9))) = Inr [Plain (DNum 9)]"
    by (simp add: replaceFilter_def filter_set_def toggledFilters_def toggle_def
        applyFilters_def sourceChart_def BaseMixin_def defaultResetFilterHandler_def
        defaultHasFilterHandler_def defaultAddFilterHandler_def Let_def)
  from replaceFilter_applies_once [OF dh dim, of "Plain (DNum 9)"] v a0 fs
  show ?thesis by auto
qed

section \<open>The policy of the default filter handler\<close>




section \<open>The mandatory attributes\<close>





section \<open>The geometry cache\<close>





end
